theory Spec2Isabelle
  imports Main "HOL-Library.Word"
begin

section \<open>JavaScript values used by the dispenser client\<close>

text \<open>
  The values that \<^verbatim>\<open>response.json()\<close> can deliver. JSON numbers are restricted to
  integers that a double holds exactly and prints in plain decimal; no property below
  depends on any other number.
\<close>

datatype json =
    JNull
  | JBool bool
  | JNumber int
  | JString string
  | JArray "json list"
  | JObject "(string \<times> json) list"

text \<open>
  The errors a call can throw. \<open>Error m\<close> is \<^verbatim>\<open>new Error(m)\<close> with message \<open>m\<close>.
  \<open>TypeError\<close> and \<open>SyntaxError\<close> are the platform's own (their wording differs between
  platforms and is left out); \<open>FetchFailure\<close> stands for every rejection of \<^verbatim>\<open>fetch\<close>
  itself (network failure, timeout abort).
\<close>

datatype js_error =
    Error string
  | TypeError
  | SyntaxError
  | FetchFailure

text \<open>JavaScript truthiness of a JSON value and of a string or number that may be undefined.\<close>

fun truthy :: "json \<Rightarrow> bool" where
  "truthy JNull = False"
| "truthy (JBool b) = b"
| "truthy (JNumber n) = (n \<noteq> 0)"
| "truthy (JString s) = (s \<noteq> [])"
| "truthy (JArray xs) = True"
| "truthy (JObject kvs) = True"

fun truthy_string :: "string option \<Rightarrow> bool" where
  "truthy_string None = False"
| "truthy_string (Some s) = (s \<noteq> [])"

fun truthy_number :: "int option \<Rightarrow> bool" where
  "truthy_number None = False"
| "truthy_number (Some n) = (n \<noteq> 0)"

text \<open>
  Reading a property of a parsed JSON value: \<open>None\<close> is \<^verbatim>\<open>undefined\<close>. An object built
  by the JSON parser keeps the last of several equal keys. The keys read in this file
  (\<^verbatim>\<open>code\<close>, \<^verbatim>\<open>message\<close>) are no built-in property of a string, number, boolean or
  array, so those values answer \<^verbatim>\<open>undefined\<close>. Reading a property of \<^verbatim>\<open>null\<close> throws; the
  callers below guard that case themselves.
\<close>

fun get_prop :: "json \<Rightarrow> string \<Rightarrow> json option" where
  "get_prop (JObject kvs) k = map_of (rev kvs) k"
| "get_prop j k = None"

text \<open>Decimal digits of a number, as a template literal prints it.\<close>

definition digit_char :: "nat \<Rightarrow> char" where
  "digit_char d = ''0123456789'' ! d"

fun decimal_digits :: "nat \<Rightarrow> string" where
  "decimal_digits n =
     (if 10 \<le> n then decimal_digits (n div 10) else []) @ [digit_char (n mod 10)]"

definition number_to_string :: "int \<Rightarrow> string" where
  "number_to_string i =
     (if 0 \<le> i then decimal_digits (nat i) else CHR ''-'' # decimal_digits (nat (- i)))"

fun join_strings :: "string \<Rightarrow> string list \<Rightarrow> string" where
  "join_strings sep [] = []"
| "join_strings sep [s] = s"
| "join_strings sep (s # t # ss) = s @ sep @ join_strings sep (t # ss)"

text \<open>
  \<^verbatim>\<open>String(v)\<close>, which \<^verbatim>\<open>new Error(v)\<close> applies to its argument: an array prints its
  elements joined by commas (with \<^verbatim>\<open>null\<close> elements empty), an object prints as
  \<^verbatim>\<open>[object Object]\<close>.
\<close>

fun ToString :: "json \<Rightarrow> string" where
  "ToString JNull = ''null''"
| "ToString (JBool b) = (if b then ''true'' else ''false'')"
| "ToString (JNumber n) = number_to_string n"
| "ToString (JString s) = s"
| "ToString (JArray xs) =
     join_strings '','' (map (\<lambda>x. if x = JNull then [] else ToString x) xs)"
| "ToString (JObject kvs) = ''[object Object]''"

text \<open>The message of \<^verbatim>\<open>new Error(v)\<close>: empty when \<^verbatim>\<open>v\<close> is undefined.\<close>

fun error_message_of :: "json option \<Rightarrow> string" where
  "error_message_of None = []"
| "error_message_of (Some v) = ToString v"

section \<open>The dispenser client: dispenser-client.js\<close>

definition baseUrl :: string where
  "baseUrl = ''https://api.dispenser.algorandfoundation.tools''"

definition dispenserRequestTimeout :: int where
  "dispenserRequestTimeout = 15"

definition dispenserAccessTokenKey :: string where
  "dispenserAccessTokenKey = ''ALGOKIT_DISPENSER_ACCESS_TOKEN''"

text \<open>
  The constructor's argument: \<^verbatim>\<open>params\<close> may be undefined, and so may each of its
  fields. \<^verbatim>\<open>process.env\<close> is a map from variable names to strings.
\<close>

record client_params =
  params_authToken :: "string option"
  params_requestTimeout :: "int option"

record TestNetDispenserApiClient =
  authToken :: string
  requestTimeout :: int

type_synonym process_env = "string \<rightharpoonup> string"

text \<open>\<^verbatim>\<open>params?.authToken\<close> and \<^verbatim>\<open>params?.requestTimeout\<close>.\<close>

fun opt_authToken :: "client_params option \<Rightarrow> string option" where
  "opt_authToken None = None"
| "opt_authToken (Some p) = params_authToken p"

fun opt_requestTimeout :: "client_params option \<Rightarrow> int option" where
  "opt_requestTimeout None = None"
| "opt_requestTimeout (Some p) = params_requestTimeout p"

definition missing_token_message :: string where
  "missing_token_message =
     ''Can't init AlgoKit TestNet Dispenser API client because neither environment variable ''
     @ dispenserAccessTokenKey @ '' or the authToken were provided.''"

text \<open>
  The constructor (lines 44 to 56). Both tests are JavaScript truthiness tests, so an
  empty string counts as no token, from either source. Each value is read only under its
  own truthiness test, where it is there.
\<close>

definition TestNetDispenserApiClient_constructor ::
  "process_env \<Rightarrow> client_params option \<Rightarrow> js_error + TestNetDispenserApiClient" where
  "TestNetDispenserApiClient_constructor env params =
     (let authTokenFromEnv = env dispenserAccessTokenKey;
          timeout =
            (if truthy_number (opt_requestTimeout params) then the (opt_requestTimeout params)
             else dispenserRequestTimeout)
      in if truthy_string (opt_authToken params) then
           Inr \<lparr>authToken = the (opt_authToken params), requestTimeout = timeout\<rparr>
         else if truthy_string authTokenFromEnv then
           Inr \<lparr>authToken = the authTokenFromEnv, requestTimeout = timeout\<rparr>
         else Inl (Error missing_token_message))"

subsection \<open>The platform's \<^verbatim>\<open>fetch\<close> and \<^verbatim>\<open>Response\<close>\<close>

text \<open>
  The body of a \<^verbatim>\<open>Response\<close> as the Fetch standard defines it: null (the response to a
  \<^verbatim>\<open>HEAD\<close> request, for one), or a stream. Of a stream the model keeps what parsing its
  bytes as JSON yields (\<open>None\<close> when they are not JSON) and whether the stream was already
  read.
\<close>

datatype response_body =
    NullBody
  | BodyStream "json option" bool

text \<open>A \<^verbatim>\<open>Response\<close>, cut down to what the client reads: the status and the body.\<close>

record response =
  status :: nat
  resp_body :: response_body

text \<open>\<^verbatim>\<open>response.bodyUsed\<close>: the body is not null and its stream was read.\<close>

definition bodyUsed :: "response \<Rightarrow> bool" where
  "bodyUsed r = (case resp_body r of NullBody \<Rightarrow> False | BodyStream parsed used \<Rightarrow> used)"

text \<open>What the body's bytes parse to as JSON; a null body has no bytes, which is not JSON.\<close>

definition body_json :: "response \<Rightarrow> json option" where
  "body_json r = (case resp_body r of NullBody \<Rightarrow> None | BodyStream parsed used \<Rightarrow> parsed)"

text \<open>\<^verbatim>\<open>response.ok\<close>: the status is in the range 200 to 299.\<close>

definition response_ok :: "response \<Rightarrow> bool" where
  "response_ok r = (200 \<le> status r \<and> status r \<le> 299)"

text \<open>
  \<^verbatim>\<open>await response.json()\<close>: the outcome and the response afterwards. The standard's
  "consume body" rejects with a \<open>TypeError\<close> when the body is a stream that was read
  before; otherwise it reads the stream to its end (the stream is used from then on,
  whether or not the bytes parse) and parses. A null body is never used: every read of it
  parses no bytes and rejects with a \<open>SyntaxError\<close>.
\<close>

definition response_json :: "response \<Rightarrow> (js_error + json) \<times> response" where
  "response_json r =
     (case resp_body r of
        NullBody \<Rightarrow> (Inl SyntaxError, r)
      | BodyStream parsed used \<Rightarrow>
          if used then (Inl TypeError, r)
          else ((case parsed of None \<Rightarrow> Inl SyntaxError | Some j \<Rightarrow> Inr j),
                r\<lparr>resp_body := BodyStream parsed True\<rparr>))"

text \<open>
  The second argument of \<^verbatim>\<open>fetch\<close>. \<open>ra_signal\<close> is the timeout of the abort signal in
  milliseconds; \<open>ra_body\<close> is the value whose \<^verbatim>\<open>JSON.stringify\<close> text is sent, \<open>None\<close>
  when the request carries no body.
\<close>

record request_args =
  ra_method :: string
  ra_headers :: "(string \<times> string) list"
  ra_signal :: int
  ra_body :: "json option"

type_synonym fetch_fn = "string \<Rightarrow> request_args \<Rightarrow> js_error + response"

subsection \<open>\<^verbatim>\<open>processDispenserRequest\<close> (lines 73 to 102)\<close>

text \<open>
  Lines 74 to 82: the headers and the request arguments. \<open>body\<close> and \<open>method\<close> are \<open>None\<close>
  when the caller leaves them out (their defaults are \<^verbatim>\<open>null\<close> and \<^verbatim>\<open>'POST'\<close>); the body
  is attached only when it is truthy.
\<close>

definition dispenser_request_args ::
  "TestNetDispenserApiClient \<Rightarrow> string \<Rightarrow> json option \<Rightarrow> string option \<Rightarrow> request_args" where
  "dispenser_request_args this token body method =
     (let headers = [(''Authorization'', ''Bearer '' @ token)];
          requestArgs =
            \<lparr>ra_method = (case method of None \<Rightarrow> ''POST'' | Some m \<Rightarrow> m),
             ra_headers = headers,
             ra_signal = requestTimeout this * 1000,
             ra_body = None\<rparr>
      in case body of
           None \<Rightarrow> requestArgs
         | Some b \<Rightarrow> if truthy b then requestArgs\<lparr>ra_body := Some b\<rparr> else requestArgs)"

definition status_message :: "nat \<Rightarrow> string" where
  "status_message st = ''Error processing dispenser API request: '' @ decimal_digits st"

text \<open>
  Lines 83 to 101. \<open>fetch\<close> is the platform's function, a parameter of the model. On a
  response that is not ok the message starts as the status message; the first
  \<^verbatim>\<open>response.json()\<close> is inside \<^verbatim>\<open>try\<close>, so its failure leaves \<^verbatim>\<open>error_response\<close> at
  \<^verbatim>\<open>null\<close>; the second one (line 97, status 400 only) is not, so its failure is thrown as
  it is, and so is the \<open>TypeError\<close> of reading \<^verbatim>\<open>.message\<close> of \<^verbatim>\<open>null\<close>.
\<close>

definition processDispenserRequest ::
  "fetch_fn \<Rightarrow> TestNetDispenserApiClient \<Rightarrow> string \<Rightarrow> string \<Rightarrow> json option \<Rightarrow> string option
     \<Rightarrow> js_error + response" where
  "processDispenserRequest fetch this token urlSuffix body method =
     (case fetch (baseUrl @ ''/'' @ urlSuffix) (dispenser_request_args this token body method) of
        Inl rejected \<Rightarrow> Inl rejected
      | Inr response \<Rightarrow>
          if \<not> response_ok response then
            (let error_message = Some (JString (status_message (status response)));
                 first_read = response_json response;
                 error_response = (case fst first_read of Inl err \<Rightarrow> JNull | Inr j \<Rightarrow> j);
                 response1 = snd first_read
             in if truthy error_response \<and>
                   (case get_prop error_response ''code'' of None \<Rightarrow> False | Some c \<Rightarrow> truthy c)
                then Inl (Error (error_message_of (get_prop error_response ''code'')))
                else if status response = 400 then
                  (case fst (response_json response1) of
                     Inl err \<Rightarrow> Inl err
                   | Inr j \<Rightarrow>
                       if j = JNull then Inl TypeError
                       else Inl (Error (error_message_of (get_prop j ''message''))))
                else Inl (Error (error_message_of error_message)))
          else Inr response)"

text \<open>
  The semantic error code that a response carries: its body parses to a truthy value
  whose \<^verbatim>\<open>code\<close> property is truthy.
\<close>

definition semantic_code :: "response \<Rightarrow> json option" where
  "semantic_code r =
     (case body_json r of
        None \<Rightarrow> None
      | Some j \<Rightarrow>
          if truthy j then
            (case get_prop j ''code'' of
               None \<Rightarrow> None
             | Some c \<Rightarrow> if truthy c then Some c else None)
          else None)"

section \<open>The wallet-connect modal\<close>

text \<open>
  The custom element \<^verbatim>\<open>DeflyWalletConnectModal\<close>. What it imports from
  \<^verbatim>\<open>deflyWalletConnectModalUtils\<close> and from the style sheet is not among the sources, so
  the two constants, the style text and \<^verbatim>\<open>removeModalWrapperFromDOM\<close> are parameters of
  the model; the document the removal acts on is a type parameter \<open>'doc\<close>.
\<close>

text \<open>The nodes appended to the shadow root: the cloned template content and the style.\<close>

datatype shadow_node =
    TemplateContent string
  | StyleElement string

text \<open>
  A shadow root: its mode, its children, and its event listeners in the order they were
  added, each with the event type it listens to. A listener is its effect on the document.
\<close>

record 'doc shadow_root =
  sr_mode :: string
  sr_children :: "shadow_node list"
  sr_listeners :: "(string \<times> ('doc \<Rightarrow> 'doc)) list"

text \<open>The host element: its attributes and the shadow root attached to it, if any.\<close>

record 'doc host_element =
  el_attributes :: "string \<rightharpoonup> string"
  el_shadow :: "'doc shadow_root option"

text \<open>
  \<^verbatim>\<open>this.attachShadow({ mode })\<close>: a new, empty shadow root of that mode. On an element
  that already hosts a shadow root the platform throws.
\<close>

datatype dom_error = NotSupportedError

definition attachShadow :: "string \<Rightarrow> 'doc host_element \<Rightarrow> dom_error + 'doc host_element" where
  "attachShadow mode el =
     (case el_shadow el of
        Some sr \<Rightarrow> Inl NotSupportedError
      | None \<Rightarrow>
          Inr (el\<lparr>el_shadow := Some \<lparr>sr_mode = mode, sr_children = [], sr_listeners = []\<rparr>\<rparr>))"

text \<open>\<^verbatim>\<open>this.shadowRoot\<close>: the shadow root when it is open, \<^verbatim>\<open>null\<close> otherwise.\<close>

definition shadowRoot :: "'doc host_element \<Rightarrow> 'doc shadow_root option" where
  "shadowRoot el =
     (case el_shadow el of
        None \<Rightarrow> None
      | Some sr \<Rightarrow> if sr_mode sr = ''open'' then Some sr else None)"

text \<open>\<^verbatim>\<open>this.getAttribute(name)\<close> inside a template literal: \<^verbatim>\<open>null\<close> prints as "null".\<close>

definition attribute_text :: "'doc host_element \<Rightarrow> string \<Rightarrow> string" where
  "attribute_text el name = (case el_attributes el name of None \<Rightarrow> ''null'' | Some v \<Rightarrow> v)"

definition deflyWalletConnectModalClassNames :: "string \<Rightarrow> string" where
  "deflyWalletConnectModalClassNames className = className @ '' '' @ className @ ''--desktop''"

text \<open>The template's \<^verbatim>\<open>innerHTML\<close> (lines 22 to 31), with white space between tags left out.\<close>

definition modal_innerHTML :: "string \<Rightarrow> string \<Rightarrow> 'doc host_element \<Rightarrow> string" where
  "modal_innerHTML modalId className el =
     ''<div class=\"'' @ deflyWalletConnectModalClassNames className @ ''\">''
     @ ''<div class=\"defly-wallet-modal__body\">''
     @ ''<defly-wallet-modal-header modal-id=\"'' @ modalId @ ''\"></defly-wallet-modal-header/>''
     @ ''<defly-wallet-modal-desktop-mode id=\"defly-wallet-modal-desktop-mode\" uri=\"''
     @ attribute_text el ''uri'' @ ''\">''
     @ ''</defly-wallet-modal-desktop-mode></div></div>''"

text \<open>
  The constructor (lines 12 to 40): attach an open shadow root; when \<^verbatim>\<open>this.shadowRoot\<close> is
  there, append the template's content and the style, and add the click listener, which
  calls \<^verbatim>\<open>removeModalWrapperFromDOM(DEFLY_WALLET_CONNECT_MODAL_ID)\<close>.
\<close>

definition DeflyWalletConnectModal_constructor ::
  "string \<Rightarrow> string \<Rightarrow> string \<Rightarrow> (string \<Rightarrow> 'doc \<Rightarrow> 'doc) \<Rightarrow> 'doc host_element
     \<Rightarrow> dom_error + 'doc host_element" where
  "DeflyWalletConnectModal_constructor modalId className styles removeModalWrapperFromDOM el =
     (case attachShadow ''open'' el of
        Inl err \<Rightarrow> Inl err
      | Inr this \<Rightarrow>
          (case shadowRoot this of
             None \<Rightarrow> Inr this
           | Some sr \<Rightarrow>
               (let styleSheet = StyleElement styles;
                    content = TemplateContent (modal_innerHTML modalId className this);
                    sr1 = sr\<lparr>sr_children := sr_children sr @ [content, styleSheet]\<rparr>;
                    sr2 = sr1\<lparr>sr_listeners :=
                            sr_listeners sr1 @ [(''click'', removeModalWrapperFromDOM modalId)]\<rparr>
                in Inr (this\<lparr>el_shadow := Some sr2\<rparr>))))"

text \<open>
  An event on its way through the shadow tree: its type, the path from the shadow root
  down to its target (empty when the target is the root itself), and whether it bubbles.
  A click bubbles.
\<close>

record dom_event =
  ev_type :: string
  ev_target :: "nat list"
  ev_bubbles :: bool

definition click_event :: "nat list \<Rightarrow> dom_event" where
  "click_event target = \<lparr>ev_type = ''click'', ev_target = target, ev_bubbles = True\<rparr>"

text \<open>
  The listeners of the shadow root that an event runs, in order: those of its type, when
  the root is the target or the event bubbles up to it. No listener below the root is
  modelled (the constructor adds none), so nothing stops the event on its way up.
\<close>

fun run_listeners :: "(string \<times> ('doc \<Rightarrow> 'doc)) list \<Rightarrow> string \<Rightarrow> 'doc \<Rightarrow> 'doc" where
  "run_listeners [] ty doc = doc"
| "run_listeners ((t, listener) # rest) ty doc =
     run_listeners rest ty (if t = ty then listener doc else doc)"

definition dispatch_at_root :: "'doc shadow_root \<Rightarrow> dom_event \<Rightarrow> 'doc \<Rightarrow> 'doc" where
  "dispatch_at_root sr ev doc =
     (if ev_target ev = [] \<or> ev_bubbles ev then run_listeners (sr_listeners sr) (ev_type ev) doc
      else doc)"

section \<open>The app-deployment helpers: app-deploy.d.ts\<close>

text \<open>
  The file \<^verbatim>\<open>app-deploy.d.ts\<close> declares the helpers and documents them; their bodies are
  not among the sources. Each definition of this section that stands for such a body is
  written from the specification and says so.
\<close>

subsection \<open>Schema-break detector\<close>

text \<open>
  An application state schema: the counts of its two resource categories, integer slots
  and byte-string slots.
\<close>

record ApplicationStateSchema =
  numUint :: int
  numByteSlice :: int

text \<open>
  Modelled from the spec: the body of \<^verbatim>\<open>isSchemaIsBroken\<close> (declared at lines 33 to 41 of
  \<^verbatim>\<open>app-deploy.d.ts\<close>, implementation not among the sources). The specification: "return
  true iff any category's after count exceeds its before count".
\<close>

definition isSchemaIsBroken :: "ApplicationStateSchema \<Rightarrow> ApplicationStateSchema \<Rightarrow> bool" where
  "isSchemaIsBroken before after =
     (numUint before < numUint after \<or> numByteSlice before < numByteSlice after)"

subsection \<open>Template substitution of the deploy-time control parameters\<close>

text \<open>Whether \<open>t\<close> starts the text \<open>s\<close>, and whether \<open>t\<close> occurs in \<open>s\<close>.\<close>

fun starts_with :: "string \<Rightarrow> string \<Rightarrow> bool" where
  "starts_with s [] = True"
| "starts_with [] (t # ts) = False"
| "starts_with (c # cs) (t # ts) = (c = t \<and> starts_with cs ts)"

fun includes_text :: "string \<Rightarrow> string \<Rightarrow> bool" where
  "includes_text [] t = (t = [])"
| "includes_text (c # cs) t = (starts_with (c # cs) t \<or> includes_text cs t)"

text \<open>Every occurrence of a non-empty token replaced, scanning from the left.\<close>

function replace_all :: "string \<Rightarrow> string \<Rightarrow> string \<Rightarrow> string" where
  "replace_all [] tok rep = []"
| "replace_all (c # cs) tok rep =
     (if tok \<noteq> [] \<and> starts_with (c # cs) tok
      then rep @ replace_all (drop (length tok) (c # cs)) tok rep
      else c # replace_all cs tok rep)"
  by pat_completeness auto
termination
  by (relation "measure (\<lambda>(s, tok, rep). length s)") auto

text \<open>The control parameters: each is a boolean or left undefined.\<close>

record control_params =
  cp_updatable :: "bool option"
  cp_deletable :: "bool option"

datatype template_error = InconsistentTemplate string

definition TMPL_UPDATABLE :: string where
  "TMPL_UPDATABLE = ''TMPL_UPDATABLE''"

definition TMPL_DELETABLE :: string where
  "TMPL_DELETABLE = ''TMPL_DELETABLE''"

text \<open>One control parameter substituted in a text: nothing to do when it is undefined.\<close>

definition substitute_control :: "(bool \<Rightarrow> string) \<Rightarrow> string \<Rightarrow> bool option \<Rightarrow> string \<Rightarrow> string" where
  "substitute_control bool_text tok v code =
     (case v of None \<Rightarrow> code | Some b \<Rightarrow> replace_all code tok (bool_text b))"

text \<open>
  Modelled from the spec: the body of \<^verbatim>\<open>replaceDeployTimeControlParams\<close> (declared at
  lines 58 to 74 of \<^verbatim>\<open>app-deploy.d.ts\<close>, implementation not among the sources). The
  specification: every occurrence of the placeholder token is replaced by the value's
  textual form; a control parameter with an explicit boolean value whose token is absent
  from the source is an error; a parameter that is not given is left untouched. The
  textual form of a boolean is not fixed by the specification and is the parameter
  \<open>bool_text\<close>.
\<close>

definition replaceDeployTimeControlParams ::
  "(bool \<Rightarrow> string) \<Rightarrow> string \<Rightarrow> control_params \<Rightarrow> template_error + string" where
  "replaceDeployTimeControlParams bool_text tealCode params =
     (if cp_updatable params \<noteq> None \<and> \<not> includes_text tealCode TMPL_UPDATABLE then
        Inl (InconsistentTemplate TMPL_UPDATABLE)
      else if cp_deletable params \<noteq> None \<and> \<not> includes_text tealCode TMPL_DELETABLE then
        Inl (InconsistentTemplate TMPL_DELETABLE)
      else
        Inr (substitute_control bool_text TMPL_DELETABLE (cp_deletable params)
              (substitute_control bool_text TMPL_UPDATABLE (cp_updatable params) tealCode)))"

subsection \<open>Deploy orchestrator\<close>

text \<open>The data model of the specification (section 3).\<close>

type_synonym bytes = "8 word list"

record DeployMetadata =
  md_name :: string
  md_version :: string
  md_updatable :: "bool option"
  md_deletable :: "bool option"

record AppMetadata = DeployMetadata +
  appId :: nat
  appAddress :: string
  createdRound :: nat
  updatedRound :: nat
  deleted :: bool

type_synonym AppLookup = "string \<rightharpoonup> AppMetadata"

record CompiledCode =
  bytecode :: bytes
  compiledBase64 :: string

text \<open>What the node holds of a deployed application: its program and its schema.\<close>

record deployed_app =
  deployed_program :: bytes
  deployed_schema :: ApplicationStateSchema

datatype on_update = OnUpdate_fail | OnUpdate_update | OnUpdate_replace | OnUpdate_append

datatype on_schema_break = OnSchemaBreak_fail | OnSchemaBreak_replace | OnSchemaBreak_append

text \<open>The deployment input: the policy on a schema break defaults to replace.\<close>

record AppDeploymentParams =
  dp_metadata :: DeployMetadata
  dp_code :: CompiledCode
  dp_schema :: ApplicationStateSchema
  dp_onUpdate :: on_update
  dp_onSchemaBreak :: "on_schema_break option"

text \<open>
  The transactions the orchestrator submits; a creation and an update carry the
  deployment note, that is the metadata.
\<close>

datatype app_txn =
    CreateApp DeployMetadata bytes ApplicationStateSchema
  | UpdateApp nat DeployMetadata bytes
  | DeleteApp nat

datatype deploy_result = Created | Updated | Replaced | Nothing AppMetadata

fun operationPerformed :: "deploy_result \<Rightarrow> string" where
  "operationPerformed Created = ''create''"
| "operationPerformed Updated = ''update''"
| "operationPerformed Replaced = ''replace''"
| "operationPerformed (Nothing existing) = ''nothing''"

datatype deploy_error =
    InsufficientSchemaMetadata
  | SchemaBreakPolicyFail
  | UpdatePolicyFail
  | SubmissionFailure app_txn

text \<open>
  Transactions are submitted one after the other; \<open>send\<close> says whether the node confirms
  one. The first failure ends the sequence. The result lists what was submitted, in
  order, and the transaction that failed, if one did.
\<close>

fun submit_all :: "(app_txn \<Rightarrow> bool) \<Rightarrow> app_txn list \<Rightarrow> app_txn list \<times> app_txn option" where
  "submit_all send [] = ([], None)"
| "submit_all send (t # ts) =
     (if send t then (t # fst (submit_all send ts), snd (submit_all send ts))
      else ([t], Some t))"

definition perform ::
  "(app_txn \<Rightarrow> bool) \<Rightarrow> app_txn list \<Rightarrow> deploy_result
     \<Rightarrow> app_txn list \<times> (deploy_error + deploy_result)" where
  "perform send txns res =
     (case snd (submit_all send txns) of
        None \<Rightarrow> (fst (submit_all send txns), Inr res)
      | Some failing \<Rightarrow> (fst (submit_all send txns), Inl (SubmissionFailure failing)))"

text \<open>
  Modelled from the spec: the body of \<^verbatim>\<open>deployApp\<close> (declared at lines 22 to 32 of
  \<^verbatim>\<open>app-deploy.d.ts\<close>, implementation not among the sources), as the decision procedure
  of section 4.5 of the specification. \<open>lookup\<close> is the AppLookup of step 1 (built by the
  creator-app lookup or supplied by the caller); \<open>chain\<close> is what the node holds for each
  application id. The result pairs the transactions submitted with the outcome.
\<close>

definition deployApp ::
  "(app_txn \<Rightarrow> bool) \<Rightarrow> (nat \<rightharpoonup> deployed_app) \<Rightarrow> AppLookup \<Rightarrow> AppDeploymentParams
     \<Rightarrow> app_txn list \<times> (deploy_error + deploy_result)" where
  "deployApp send chain lookup deployment =
     (let metadata = dp_metadata deployment;
          code = bytecode (dp_code deployment);
          create = CreateApp metadata code (dp_schema deployment)
      in case lookup (md_name metadata) of
           None \<Rightarrow> perform send [create] Created
         | Some existing \<Rightarrow>
             (case chain (appId existing) of
                None \<Rightarrow> ([], Inl InsufficientSchemaMetadata)
              | Some deployed \<Rightarrow>
                  if isSchemaIsBroken (deployed_schema deployed) (dp_schema deployment) then
                    (case (case dp_onSchemaBreak deployment of
                             None \<Rightarrow> OnSchemaBreak_replace | Some policy \<Rightarrow> policy) of
                       OnSchemaBreak_fail \<Rightarrow> ([], Inl SchemaBreakPolicyFail)
                     | OnSchemaBreak_append \<Rightarrow> perform send [create] Created
                     | OnSchemaBreak_replace \<Rightarrow>
                         perform send [DeleteApp (appId existing), create] Replaced)
                  else if deployed_program deployed = code
                       \<and> md_version existing = md_version metadata
                       \<and> md_updatable existing = md_updatable metadata
                       \<and> md_deletable existing = md_deletable metadata then
                    ([], Inr (Nothing existing))
                  else
                    (case dp_onUpdate deployment of
                       OnUpdate_fail \<Rightarrow> ([], Inl UpdatePolicyFail)
                     | OnUpdate_update \<Rightarrow>
                         perform send [UpdateApp (appId existing) metadata code] Updated
                     | OnUpdate_replace \<Rightarrow>
                         perform send [DeleteApp (appId existing), create] Replaced
                     | OnUpdate_append \<Rightarrow> perform send [create] Created)))"

section \<open>Properties of the dispenser client\<close>

text \<open>
  C6. With no explicit \<^verbatim>\<open>authToken\<close> and the environment variable unset the constructor
  throws; when a source provides a token (a non-empty string) construction succeeds and
  \<^verbatim>\<open>authToken\<close> is that token: the explicit one when it is given, the environment's one
  when the explicit one is absent or empty.
\<close>

theorem constructor_token_sources:
  "(opt_authToken params = None \<and> env dispenserAccessTokenKey = None \<longrightarrow>
      TestNetDispenserApiClient_constructor env params = Inl (Error missing_token_message))
   \<and> (opt_authToken params = Some t \<and> t \<noteq> [] \<longrightarrow>
      (\<exists>c. TestNetDispenserApiClient_constructor env params = Inr c \<and> authToken c = t))
   \<and> (\<not> truthy_string (opt_authToken params) \<and> env dispenserAccessTokenKey = Some t \<and> t \<noteq> [] \<longrightarrow>
      (\<exists>c. TestNetDispenserApiClient_constructor env params = Inr c \<and> authToken c = t))"
  by (simp add: TestNetDispenserApiClient_constructor_def Let_def)

theorem constructor_token_sources_witness:
  "TestNetDispenserApiClient_constructor Map.empty None = Inl (Error missing_token_message)
   \<and> (\<exists>c. TestNetDispenserApiClient_constructor Map.empty
            (Some \<lparr>params_authToken = Some ''abc'', params_requestTimeout = None\<rparr>) = Inr c
          \<and> authToken c = ''abc'')
   \<and> (\<exists>c. TestNetDispenserApiClient_constructor
            [dispenserAccessTokenKey \<mapsto> ''xyz''] None = Inr c
          \<and> authToken c = ''xyz'')"
proof -
  have a: "TestNetDispenserApiClient_constructor Map.empty None = Inl (Error missing_token_message)"
    using constructor_token_sources [of None Map.empty] by simp
  have b: "\<exists>c. TestNetDispenserApiClient_constructor Map.empty
            (Some \<lparr>params_authToken = Some ''abc'', params_requestTimeout = None\<rparr>) = Inr c
          \<and> authToken c = ''abc''"
    using constructor_token_sources
      [of "Some \<lparr>params_authToken = Some ''abc'', params_requestTimeout = None\<rparr>" Map.empty "''abc''"]
    by simp
  have c: "\<exists>c. TestNetDispenserApiClient_constructor
            [dispenserAccessTokenKey \<mapsto> ''xyz''] None = Inr c \<and> authToken c = ''xyz''"
    using constructor_token_sources [of None "[dispenserAccessTokenKey \<mapsto> ''xyz'']" "''xyz''"]
    by simp
  from a b c show ?thesis by blast
qed

text \<open>
  The constructor throws whenever neither source holds a truthy token, so also when a
  token is given as the empty string.
\<close>

lemma constructor_no_truthy_token_throws:
  assumes "\<not> truthy_string (opt_authToken params)"
    and "\<not> truthy_string (env dispenserAccessTokenKey)"
  shows "TestNetDispenserApiClient_constructor env params = Inl (Error missing_token_message)"
  using assms by (simp add: TestNetDispenserApiClient_constructor_def Let_def)

text \<open>
  C10, as the claim states it, fails when the explicit \<^verbatim>\<open>authToken\<close> is the empty string:
  with the parameter given as \<^verbatim>\<open>''\<close> and the environment variable set, both are present,
  yet the truthiness test of line 46 passes the parameter over and the client carries the
  environment's token; with the variable unset the same parameter makes the constructor
  throw, so the variable is not ignored.
\<close>

theorem constructor_empty_explicit_token_counterexample:
  "TestNetDispenserApiClient_constructor [dispenserAccessTokenKey \<mapsto> ''xyz'']
     (Some \<lparr>params_authToken = Some [], params_requestTimeout = None\<rparr>)
   = Inr \<lparr>authToken = ''xyz'', requestTimeout = dispenserRequestTimeout\<rparr>
   \<and> TestNetDispenserApiClient_constructor Map.empty
     (Some \<lparr>params_authToken = Some [], params_requestTimeout = None\<rparr>)
   = Inl (Error missing_token_message)"
  by (simp add: TestNetDispenserApiClient_constructor_def Let_def)

text \<open>
  C10, amended. When both a non-empty explicit \<^verbatim>\<open>authToken\<close> and the environment
  variable are present, the client uses the explicit one: the result carries the explicit
  token and is the same for every environment.
\<close>

theorem constructor_explicit_token_wins:
  assumes "opt_authToken params = Some t" and "t \<noteq> []"
    and "env dispenserAccessTokenKey = Some e"
  shows "(\<exists>c. TestNetDispenserApiClient_constructor env params = Inr c \<and> authToken c = t)
       \<and> TestNetDispenserApiClient_constructor env params =
         TestNetDispenserApiClient_constructor env' params"
  using assms by (simp add: TestNetDispenserApiClient_constructor_def Let_def)

theorem constructor_explicit_token_wins_witness:
  "(\<exists>c. TestNetDispenserApiClient_constructor [dispenserAccessTokenKey \<mapsto> ''from-env'']
          (Some \<lparr>params_authToken = Some ''explicit'', params_requestTimeout = Some 30\<rparr>) = Inr c
        \<and> authToken c = ''explicit'')
   \<and> TestNetDispenserApiClient_constructor [dispenserAccessTokenKey \<mapsto> ''from-env'']
          (Some \<lparr>params_authToken = Some ''explicit'', params_requestTimeout = Some 30\<rparr>)
     = TestNetDispenserApiClient_constructor Map.empty
          (Some \<lparr>params_authToken = Some ''explicit'', params_requestTimeout = Some 30\<rparr>)"
proof -
  let ?p = "Some \<lparr>params_authToken = Some ''explicit'', params_requestTimeout = Some 30\<rparr>"
  let ?env = "[dispenserAccessTokenKey \<mapsto> ''from-env'']"
  have h1: "opt_authToken ?p = Some ''explicit''" by simp
  have h2: "''explicit'' \<noteq> []" by simp
  have h3: "?env dispenserAccessTokenKey = Some ''from-env''" by simp
  show ?thesis
    by (rule constructor_explicit_token_wins [of ?p "''explicit''" ?env "''from-env''" Map.empty,
          OF h1 h2 h3])
qed

text \<open>
  C7, as the claim states it, fails at status 400: for a response with status 400 whose
  body parses but has no \<^verbatim>\<open>code\<close>, the helper reads the body a second time and the
  platform's \<open>TypeError\<close> is what the caller gets, not an error carrying the status.
\<close>

theorem processDispenserRequest_status_400_counterexample:
  "processDispenserRequest
     (\<lambda>url args. Inr \<lparr>status = 400,
                       resp_body = BodyStream
                         (Some (JObject [(''message'', JString ''Bad Request'')])) False\<rparr>)
     \<lparr>authToken = ''token'', requestTimeout = 15\<rparr> ''token'' ''fund/0'' None None
   = Inl TypeError
   \<and> processDispenserRequest
     (\<lambda>url args. Inr \<lparr>status = 400,
                       resp_body = BodyStream
                         (Some (JObject [(''message'', JString ''Bad Request'')])) False\<rparr>)
     \<lparr>authToken = ''token'', requestTimeout = 15\<rparr> ''token'' ''fund/0'' None None
   \<noteq> Inl (Error ''Error processing dispenser API request: 400'')"
  by (simp add: processDispenserRequest_def response_ok_def response_json_def Let_def)

text \<open>
  C7, amended. For every response that is not ok (and whose body was not read before, as
  \<^verbatim>\<open>fetch\<close> delivers it): when the body parses and carries a truthy \<^verbatim>\<open>code\<close>, the helper
  throws an \<open>Error\<close> whose message is that code; otherwise, when the status is not 400, it
  throws an \<open>Error\<close> whose message carries the status. Nothing is said of status 400 without
  a code.
\<close>

theorem processDispenserRequest_error_message:
  assumes "fetch (baseUrl @ ''/'' @ urlSuffix) (dispenser_request_args this token body method) = Inr r"
    and "\<not> response_ok r" and "\<not> bodyUsed r"
  shows "(semantic_code r = Some c \<longrightarrow>
            processDispenserRequest fetch this token urlSuffix body method
              = Inl (Error (ToString c)))
       \<and> (semantic_code r = None \<and> status r \<noteq> 400 \<longrightarrow>
            processDispenserRequest fetch this token urlSuffix body method
              = Inl (Error (status_message (status r))))"
  using assms
  by (auto simp: processDispenserRequest_def semantic_code_def response_json_def body_json_def
           bodyUsed_def Let_def
           split: option.splits if_splits response_body.splits)

theorem processDispenserRequest_error_message_witness:
  "processDispenserRequest
     (\<lambda>url args. Inr \<lparr>status = 500,
                       resp_body = BodyStream
                         (Some (JObject [(''code'', JString ''dispenser_out_of_funds'')])) False\<rparr>)
     \<lparr>authToken = ''token'', requestTimeout = 15\<rparr> ''token'' ''fund/0'' None None
   = Inl (Error ''dispenser_out_of_funds'')
   \<and> processDispenserRequest
     (\<lambda>url args. Inr \<lparr>status = 503, resp_body = BodyStream None False\<rparr>)
     \<lparr>authToken = ''token'', requestTimeout = 15\<rparr> ''token'' ''fund/0'' None None
   = Inl (Error ''Error processing dispenser API request: 503'')"
proof -
  let ?client = "\<lparr>authToken = ''token'', requestTimeout = 15\<rparr>"
  let ?r = "\<lparr>status = 500,
             resp_body = BodyStream
               (Some (JObject [(''code'', JString ''dispenser_out_of_funds'')])) False\<rparr>"
  let ?fetch = "\<lambda>(url :: string) (args :: request_args). (Inr ?r :: js_error + response)"
  have h1: "?fetch (baseUrl @ ''/'' @ ''fund/0'') (dispenser_request_args ?client ''token'' None None)
              = Inr ?r"
    by simp
  have h2: "\<not> response_ok ?r" by (simp add: response_ok_def)
  have h3: "\<not> bodyUsed ?r" by (simp add: bodyUsed_def)
  have h4: "semantic_code ?r = Some (JString ''dispenser_out_of_funds'')"
    by (simp add: semantic_code_def body_json_def)
  from processDispenserRequest_error_message [OF h1 h2 h3, of "JString ''dispenser_out_of_funds''"] h4
  have coded: "processDispenserRequest ?fetch ?client ''token'' ''fund/0'' None None
                 = Inl (Error ''dispenser_out_of_funds'')"
    by simp
  let ?r' = "\<lparr>status = 503, resp_body = BodyStream None False\<rparr>"
  let ?fetch' = "\<lambda>(url :: string) (args :: request_args). (Inr ?r' :: js_error + response)"
  have g1: "?fetch' (baseUrl @ ''/'' @ ''fund/0'') (dispenser_request_args ?client ''token'' None None)
              = Inr ?r'"
    by simp
  have g2: "\<not> response_ok ?r'" by (simp add: response_ok_def)
  have g3: "\<not> bodyUsed ?r'" by (simp add: bodyUsed_def)
  have g4: "semantic_code ?r' = None \<and> status ?r' \<noteq> 400"
    by (simp add: semantic_code_def body_json_def)
  have digits: "status_message 503 = ''Error processing dispenser API request: 503''"
    by (simp add: status_message_def digit_char_def)
  from processDispenserRequest_error_message [OF g1 g2 g3, of undefined] g4 digits
  have fallback: "processDispenserRequest ?fetch' ?client ''token'' ''fund/0'' None None
                 = Inl (Error ''Error processing dispenser API request: 503'')"
    by simp
  from coded fallback show ?thesis by (rule conjI)
qed

text \<open>
  What the helper does at status 400 when the body carries no code: the second read of
  the body fails, whatever the body holds, and that failure is what the caller gets: the
  \<open>TypeError\<close> of a stream already read, or the \<open>SyntaxError\<close> of a null body.
\<close>

lemma processDispenserRequest_status_400_second_read:
  assumes "fetch (baseUrl @ ''/'' @ urlSuffix) (dispenser_request_args this token body method) = Inr r"
    and "\<not> bodyUsed r" and "status r = 400" and "semantic_code r = None"
  shows "processDispenserRequest fetch this token urlSuffix body method
           = (if resp_body r = NullBody then Inl SyntaxError else Inl TypeError)"
  using assms
  by (auto simp: processDispenserRequest_def semantic_code_def response_json_def response_ok_def
           body_json_def bodyUsed_def Let_def
           split: option.splits if_splits response_body.splits)

text \<open>A response that is ok is returned as it is, its body unread.\<close>

lemma processDispenserRequest_ok:
  assumes "fetch (baseUrl @ ''/'' @ urlSuffix) (dispenser_request_args this token body method) = Inr r"
    and "response_ok r"
  shows "processDispenserRequest fetch this token urlSuffix body method = Inr r"
  using assms by (simp add: processDispenserRequest_def)

section \<open>Properties of the wallet-connect modal\<close>

text \<open>
  C9. The modal constructed on a fresh element has a shadow root, and every click event
  within it (whatever its target below the root) runs the removal of the modal wrapper,
  identified by the modal's id, on the document.
\<close>

theorem modal_click_removes_wrapper:
  assumes "el_shadow el = None"
  shows "\<exists>modal sr.
           DeflyWalletConnectModal_constructor modalId className styles
             removeModalWrapperFromDOM el = Inr modal
         \<and> shadowRoot modal = Some sr
         \<and> (\<forall>target doc. dispatch_at_root sr (click_event target) doc
                           = removeModalWrapperFromDOM modalId doc)"
  using assms
  by (simp add: DeflyWalletConnectModal_constructor_def attachShadow_def shadowRoot_def
        dispatch_at_root_def click_event_def Let_def)

theorem modal_click_removes_wrapper_witness:
  "\<exists>modal sr.
     DeflyWalletConnectModal_constructor ''defly-wallet-connect-modal-wrapper''
       ''defly-wallet-modal'' [] removeAll
       \<lparr>el_attributes = [''uri'' \<mapsto> ''wc:1''], el_shadow = None\<rparr> = Inr modal
   \<and> shadowRoot modal = Some sr
   \<and> dispatch_at_root sr (click_event [0, 1])
        [''app'', ''defly-wallet-connect-modal-wrapper'']
      = [''app'']"
proof -
  let ?el = "\<lparr>el_attributes = [''uri'' \<mapsto> ''wc:1''],
              el_shadow = (None :: string list shadow_root option)\<rparr>"
  have fresh: "el_shadow ?el = None" by simp
  from modal_click_removes_wrapper
    [OF fresh, of "''defly-wallet-connect-modal-wrapper''" "''defly-wallet-modal''" "[]" removeAll]
  obtain modal sr where
    built: "DeflyWalletConnectModal_constructor ''defly-wallet-connect-modal-wrapper''
              ''defly-wallet-modal'' [] removeAll ?el = Inr modal"
    and sr: "shadowRoot modal = Some sr"
    and click: "\<And>target doc. dispatch_at_root sr (click_event target) doc
                  = removeAll ''defly-wallet-connect-modal-wrapper'' doc"
    by blast
  have "dispatch_at_root sr (click_event [0, 1]) [''app'', ''defly-wallet-connect-modal-wrapper'']
          = [''app'']"
    by (simp add: click)
  with built sr show ?thesis by blast
qed

section \<open>Properties of the app-deployment helpers\<close>

text \<open>
  C2. The schema-break test is true exactly when the count of integer slots or the count
  of byte-string slots is larger after than before; in particular it is false for equal
  schemas and when no count after exceeds its count before.
\<close>

theorem isSchemaIsBroken_iff_grew:
  "(isSchemaIsBroken before after \<longleftrightarrow>
      numUint after > numUint before \<or> numByteSlice after > numByteSlice before)
   \<and> \<not> isSchemaIsBroken before before
   \<and> (numUint after \<le> numUint before \<and> numByteSlice after \<le> numByteSlice before
        \<longrightarrow> \<not> isSchemaIsBroken before after)"
  by (auto simp: isSchemaIsBroken_def)

theorem isSchemaIsBroken_iff_grew_witness:
  "isSchemaIsBroken \<lparr>numUint = 1, numByteSlice = 2\<rparr> \<lparr>numUint = 1, numByteSlice = 3\<rparr>
   \<and> \<not> isSchemaIsBroken \<lparr>numUint = 1, numByteSlice = 2\<rparr> \<lparr>numUint = 1, numByteSlice = 2\<rparr>
   \<and> \<not> isSchemaIsBroken \<lparr>numUint = 1, numByteSlice = 2\<rparr> \<lparr>numUint = 0, numByteSlice = 2\<rparr>"
  using isSchemaIsBroken_iff_grew
      [of "\<lparr>numUint = 1, numByteSlice = 2\<rparr>" "\<lparr>numUint = 1, numByteSlice = 3\<rparr>"]
    isSchemaIsBroken_iff_grew
      [of "\<lparr>numUint = 1, numByteSlice = 2\<rparr>" "\<lparr>numUint = 0, numByteSlice = 2\<rparr>"]
  by simp

lemma starts_with_iff: "starts_with s t \<longleftrightarrow> (\<exists>post. s = t @ post)"
  by (induction s t rule: starts_with.induct) auto

lemma includes_text_iff: "includes_text s t \<longleftrightarrow> (\<exists>pre post. s = pre @ t @ post)"
proof (induction s)
  case Nil
  then show ?case by auto
next
  case (Cons c cs)
  show ?case
  proof
    assume "includes_text (c # cs) t"
    then consider "starts_with (c # cs) t" | "includes_text cs t" by auto
    then show "\<exists>pre post. c # cs = pre @ t @ post"
    proof cases
      case 1
      then obtain post where "c # cs = t @ post" by (auto simp: starts_with_iff)
      then have "c # cs = [] @ t @ post" by simp
      then show ?thesis by blast
    next
      case 2
      with Cons.IH obtain pre post where "cs = pre @ t @ post" by blast
      then have "c # cs = (c # pre) @ t @ post" by simp
      then show ?thesis by blast
    qed
  next
    assume "\<exists>pre post. c # cs = pre @ t @ post"
    then obtain pre post where eq: "c # cs = pre @ t @ post" by blast
    show "includes_text (c # cs) t"
    proof (cases pre)
      case Nil
      with eq have "starts_with (c # cs) t" by (auto simp: starts_with_iff)
      then show ?thesis by simp
    next
      case (Cons p ps)
      with eq have "cs = ps @ t @ post" by simp
      with Cons.IH have "includes_text cs t" by blast
      then show ?thesis by simp
    qed
  qed
qed

text \<open>
  C5. When a control parameter has an explicit boolean value and its placeholder token
  occurs nowhere in the source, the substitution ends in the inconsistent-template error
  and returns no text.
\<close>

theorem replaceDeployTimeControlParams_token_absent:
  assumes "(cp_updatable params = Some b \<and> (\<nexists>pre post. tealCode = pre @ ''TMPL_UPDATABLE'' @ post))
         \<or> (cp_deletable params = Some b \<and> (\<nexists>pre post. tealCode = pre @ ''TMPL_DELETABLE'' @ post))"
  shows "(\<exists>tok. replaceDeployTimeControlParams bool_text tealCode params
                  = Inl (InconsistentTemplate tok))
       \<and> (\<forall>out. replaceDeployTimeControlParams bool_text tealCode params \<noteq> Inr out)"
proof -
  from assms have
    "(cp_updatable params \<noteq> None \<and> \<not> includes_text tealCode TMPL_UPDATABLE)
     \<or> (cp_deletable params \<noteq> None \<and> \<not> includes_text tealCode TMPL_DELETABLE)"
    by (auto simp: includes_text_iff TMPL_UPDATABLE_def TMPL_DELETABLE_def)
  then show ?thesis
    by (auto simp: replaceDeployTimeControlParams_def)
qed

theorem replaceDeployTimeControlParams_token_absent_witness:
  "(\<exists>tok. replaceDeployTimeControlParams (\<lambda>b. if b then ''1'' else ''0'') ''int TMPL_DELETABLE''
            \<lparr>cp_updatable = Some True, cp_deletable = Some False\<rparr>
          = Inl (InconsistentTemplate tok))
   \<and> (\<forall>out. replaceDeployTimeControlParams (\<lambda>b. if b then ''1'' else ''0'') ''int TMPL_DELETABLE''
            \<lparr>cp_updatable = Some True, cp_deletable = Some False\<rparr>
          \<noteq> Inr out)"
proof -
  have "\<not> includes_text ''int TMPL_DELETABLE'' ''TMPL_UPDATABLE''" by simp
  then have absent: "\<nexists>pre post. ''int TMPL_DELETABLE'' = pre @ ''TMPL_UPDATABLE'' @ post"
    by (simp only: includes_text_iff not_False_eq_True)
  have given: "cp_updatable \<lparr>cp_updatable = Some True, cp_deletable = Some False\<rparr> = Some True"
    by simp
  from given absent have
    "(cp_updatable \<lparr>cp_updatable = Some True, cp_deletable = Some False\<rparr> = Some True
        \<and> (\<nexists>pre post. ''int TMPL_DELETABLE'' = pre @ ''TMPL_UPDATABLE'' @ post))
     \<or> (cp_deletable \<lparr>cp_updatable = Some True, cp_deletable = Some False\<rparr> = Some True
        \<and> (\<nexists>pre post. ''int TMPL_DELETABLE'' = pre @ ''TMPL_DELETABLE'' @ post))"
    by blast
  then show ?thesis
    by (rule replaceDeployTimeControlParams_token_absent)
qed

text \<open>
  C8. When an existing app is found for the name, its schema has grown and the policy on
  a schema break is to fail, the orchestrator ends in a fatal error and submits no
  transaction.
\<close>

theorem deployApp_schema_break_fail:
  assumes "lookup (md_name (dp_metadata deployment)) = Some existing"
    and "chain (appId existing) = Some deployed"
    and "isSchemaIsBroken (deployed_schema deployed) (dp_schema deployment)"
    and "dp_onSchemaBreak deployment = Some OnSchemaBreak_fail"
  shows "deployApp send chain lookup deployment = ([], Inl SchemaBreakPolicyFail)"
  using assms by (simp add: deployApp_def Let_def)

theorem deployApp_schema_break_fail_witness:
  "deployApp (\<lambda>t. True)
     [7 \<mapsto> \<lparr>deployed_program = [1, 2], deployed_schema = \<lparr>numUint = 1, numByteSlice = 0\<rparr>\<rparr>]
     [''counter'' \<mapsto>
        \<lparr>md_name = ''counter'', md_version = ''1.0'', md_updatable = Some True,
         md_deletable = Some True, appId = 7, appAddress = ''ADDR'', createdRound = 10,
         updatedRound = 10, deleted = False\<rparr>]
     \<lparr>dp_metadata = \<lparr>md_name = ''counter'', md_version = ''2.0'', md_updatable = Some True,
                      md_deletable = Some True\<rparr>,
      dp_code = \<lparr>bytecode = [1, 2], compiledBase64 = ''AQI=''\<rparr>,
      dp_schema = \<lparr>numUint = 2, numByteSlice = 0\<rparr>,
      dp_onUpdate = OnUpdate_update,
      dp_onSchemaBreak = Some OnSchemaBreak_fail\<rparr>
   = ([], Inl SchemaBreakPolicyFail)"
proof -
  let ?existing = "\<lparr>md_name = ''counter'', md_version = ''1.0'', md_updatable = Some True,
         md_deletable = Some True, appId = 7, appAddress = ''ADDR'', createdRound = 10,
         updatedRound = 10, deleted = False\<rparr>"
  let ?deployed = "\<lparr>deployed_program = [1, 2] :: bytes,
         deployed_schema = \<lparr>numUint = 1, numByteSlice = 0\<rparr>\<rparr>"
  let ?deployment = "\<lparr>dp_metadata = \<lparr>md_name = ''counter'', md_version = ''2.0'',
                      md_updatable = Some True, md_deletable = Some True\<rparr>,
      dp_code = \<lparr>bytecode = [1, 2], compiledBase64 = ''AQI=''\<rparr>,
      dp_schema = \<lparr>numUint = 2, numByteSlice = 0\<rparr>,
      dp_onUpdate = OnUpdate_update,
      dp_onSchemaBreak = Some OnSchemaBreak_fail\<rparr>"
  have h1: "[''counter'' \<mapsto> ?existing] (md_name (dp_metadata ?deployment)) = Some ?existing"
    by simp
  have h2: "[7 \<mapsto> ?deployed] (appId ?existing) = Some ?deployed"
    by simp
  have h3: "isSchemaIsBroken (deployed_schema ?deployed) (dp_schema ?deployment)"
    by (simp add: isSchemaIsBroken_def)
  have h4: "dp_onSchemaBreak ?deployment = Some OnSchemaBreak_fail"
    by simp
  let ?lookup = "[''counter'' \<mapsto> ?existing]"
  let ?chain = "[7 \<mapsto> ?deployed]"
  show ?thesis
    by (rule deployApp_schema_break_fail
          [where lookup = ?lookup and chain = ?chain and existing = ?existing
             and deployed = ?deployed and deployment = ?deployment, OF h1 h2 h3 h4])
qed

end
